theory Spec2Isabelle
  imports Main "HOL-Library.Word"
begin

unbundle bit_operations_syntax

section \<open>Coupons database (satellitedb)\<close>

text \<open>
  A Go \<^verbatim>\<open>error\<close> value of this package is a message or the group that
  \<^verbatim>\<open>errs.Combine\<close> builds; \<^verbatim>\<open>nil\<close> is \<open>None\<close> of an optional error. A function
  that returns \<^verbatim>\<open>(value, err)\<close> returns the pair here: the conversions return a value
  next to a non-nil error, and the paged listing a zero value next to a nil one.
\<close>

datatype goerror = Err string | Group "goerror list"

text \<open>\<^verbatim>\<open>errs.Combine\<close>: no error for no errors, the error itself for one, the group
  otherwise.\<close>

fun Combine :: "goerror list \<Rightarrow> goerror option" where
  "Combine [] = None"
| "Combine [e] = Some e"
| "Combine es = Some (Group es)"

record dbx_Coupon =
  Id :: "8 word list"
  ProjectId :: "8 word list"
  UserId :: "8 word list"
  Amount :: "64 word"
  Description :: string
  Type :: int
  Status :: int
  Duration :: "64 word"
  CreatedAt :: int

record Coupon =
  ID :: "128 word"
  UserID :: "128 word"
  ProjectID :: "128 word"
  Amount :: "64 word"
  Duration :: "64 word"
  Description :: string
  Type :: int
  Status :: int
  Created :: int

record CouponsPage =
  Coupons :: "Coupon list"
  Next :: bool
  NextOffset :: "64 word"

text \<open>The zero values \<^verbatim>\<open>payments.Coupon{}\<close> and \<^verbatim>\<open>payments.CouponsPage{}\<close>.\<close>

definition zero_Coupon :: Coupon where
  "zero_Coupon = \<lparr> ID = 0, UserID = 0, ProjectID = 0, Amount = 0, Duration = 0,
                    Description = [], Type = 0, Status = 0, Created = 0 \<rparr>"

definition zero_CouponsPage :: CouponsPage where
  "zero_CouponsPage = \<lparr> Coupons = [], Next = False, NextOffset = 0 \<rparr>"

text \<open>
  \<^verbatim>\<open>dbutil.BytesToUUID\<close> is not among the sources; the conversions take it as the
  parameter \<open>BytesToUUID\<close>. \<^verbatim>\<open>fromDBXCoupon\<close> returns at the first field that does not
  convert and leaves \<^verbatim>\<open>Type\<close> at its zero value.
\<close>

definition fromDBXCoupon ::
  "(8 word list \<Rightarrow> goerror + 128 word) \<Rightarrow> dbx_Coupon \<Rightarrow> Coupon \<times> goerror option" where
  "fromDBXCoupon BytesToUUID dbxCoupon =
     (case BytesToUUID (UserId dbxCoupon) of
        Inl err \<Rightarrow> (zero_Coupon, Some err)
      | Inr userID \<Rightarrow>
     (case BytesToUUID (ProjectId dbxCoupon) of
        Inl err \<Rightarrow> (zero_Coupon, Some err)
      | Inr projectID \<Rightarrow>
     (case BytesToUUID (Id dbxCoupon) of
        Inl err \<Rightarrow> (zero_Coupon, Some err)
      | Inr couponID \<Rightarrow>
          (\<lparr> ID = couponID, UserID = userID, ProjectID = projectID,
              Amount = dbx_Coupon.Amount dbxCoupon,
              Duration = dbx_Coupon.Duration dbxCoupon,
              Description = dbx_Coupon.Description dbxCoupon,
              Type = 0,
              Status = dbx_Coupon.Status dbxCoupon,
              Created = CreatedAt dbxCoupon \<rparr>, None))))"

text \<open>The loop of \<^verbatim>\<open>couponsFromDbxSlice\<close>, with the two slices it appends to.\<close>

fun couponsFromDbxSlice_loop ::
  "(8 word list \<Rightarrow> goerror + 128 word) \<Rightarrow> dbx_Coupon list \<Rightarrow> Coupon list \<Rightarrow> goerror list
     \<Rightarrow> Coupon list \<times> goerror list" where
  "couponsFromDbxSlice_loop BytesToUUID [] coupons errors = (coupons, errors)"
| "couponsFromDbxSlice_loop BytesToUUID (couponDbx # rest) coupons errors =
     (case fromDBXCoupon BytesToUUID couponDbx of
        (coupon, Some err) \<Rightarrow> couponsFromDbxSlice_loop BytesToUUID rest coupons (errors @ [err])
      | (coupon, None) \<Rightarrow> couponsFromDbxSlice_loop BytesToUUID rest (coupons @ [coupon]) errors)"

definition couponsFromDbxSlice ::
  "(8 word list \<Rightarrow> goerror + 128 word) \<Rightarrow> dbx_Coupon list \<Rightarrow> Coupon list \<times> goerror option" where
  "couponsFromDbxSlice BytesToUUID couponsDbx =
     (case couponsFromDbxSlice_loop BytesToUUID couponsDbx [] [] of
        (coupons, errors) \<Rightarrow> (coupons, Combine errors))"

text \<open>
  The generated query methods of \<^verbatim>\<open>coupons.db\<close> are not among the sources either: a
  listing takes the rows and the error that its query returned. \<^verbatim>\<open>List\<close>,
  \<^verbatim>\<open>ListByUserID\<close>, \<^verbatim>\<open>ListByUserIDAndStatus\<close> and \<^verbatim>\<open>ListByProjectID\<close> have one
  body after their query: they return the combined error of the conversion.
\<close>

definition List_coupons ::
  "(8 word list \<Rightarrow> goerror + 128 word) \<Rightarrow> dbx_Coupon list \<times> goerror option
     \<Rightarrow> Coupon list \<times> goerror option" where
  "List_coupons BytesToUUID queried =
     (case queried of
        (dbxCoupons, Some err) \<Rightarrow> ([], Some err)
      | (dbxCoupons, None) \<Rightarrow> couponsFromDbxSlice BytesToUUID dbxCoupons)"

text \<open>
  \<^verbatim>\<open>ListPaged\<close>; \<open>queried\<close> is what the limited query returned for \<^verbatim>\<open>limit+1\<close>
  and \<^verbatim>\<open>offset\<close>. \<^verbatim>\<open>limit\<close> is an \<^verbatim>\<open>int\<close>, \<^verbatim>\<open>offset\<close> an \<^verbatim>\<open>int64\<close>: 64-bit words
  whose sums wrap. Cutting the last element off an empty slice (which \<^verbatim>\<open>limit = -1\<close>
  and no rows lead to) is a run-time panic.
\<close>

datatype 'a outcome = Returned 'a | Panic string

definition ListPaged ::
  "(8 word list \<Rightarrow> goerror + 128 word) \<Rightarrow> dbx_Coupon list \<times> goerror option
     \<Rightarrow> 64 word \<Rightarrow> 64 word \<Rightarrow> (CouponsPage \<times> goerror option) outcome" where
  "ListPaged BytesToUUID queried offset limit =
     (case queried of
        (dbxCoupons, Some err) \<Rightarrow> Returned (zero_CouponsPage, Some err)
      | (dbxCoupons, None) \<Rightarrow>
          (let more = (of_nat (length dbxCoupons) = limit + 1);
               page = (if more
                       then zero_CouponsPage \<lparr> Next := True, NextOffset := offset + limit + 1 \<rparr>
                       else zero_CouponsPage);
               dbxCoupons' = (if more then butlast dbxCoupons else dbxCoupons)
           in if more \<and> dbxCoupons = [] then Panic ''slice bounds out of range''
              else
                (case couponsFromDbxSlice BytesToUUID dbxCoupons' of
                   (coupons, Some err) \<Rightarrow> Returned (zero_CouponsPage, None)
                 | (coupons, None) \<Rightarrow> Returned (page \<lparr> Coupons := coupons \<rparr>, None))))"

section \<open>Data model of the metabase\<close>

text \<open>
  Identifiers are fixed-size byte arrays in the sources (\<^verbatim>\<open>uuid.UUID\<close> is 16 bytes,
  a piece or node id 32 bytes); they are words of that width here, and \<^verbatim>\<open>IsZero\<close>
  is equality with the all-zero word. Byte slices are lists of bytes, Go strings are
  \<^typ>\<open>string\<close>. \<^verbatim>\<open>Version\<close> is an \<^verbatim>\<open>int64\<close> that the retrieval code only
  compares, never computes with, so it is an \<^typ>\<open>int\<close>; the same holds for the sizes
  and offsets, whose one sum is computed by the SQL backend, which does not wrap. A
  \<^verbatim>\<open>time.Time\<close> is an instant on an integer time line, a \<^verbatim>\<open>*time.Time\<close> an optional
  one. \<^verbatim>\<open>Object\<close> has the fields that get.go scans or sets.
\<close>

type_synonym UUID = "128 word"
type_synonym bytes = "8 word list"
type_synonym Time = int

definition IsZero :: "UUID \<Rightarrow> bool" where
  "IsZero u = (u = 0)"

datatype ObjectStatus = Pending | Committed

record EncryptionParameters =
  CipherSuite :: "8 word"
  BlockSize :: int

record ObjectLocation =
  ProjectID :: UUID
  BucketName :: string
  ObjectKey :: string

text \<open>Go's struct embedding is record extension: the fields of the embedded struct are
  fields of the embedding one.\<close>

record ObjectStream = ObjectLocation +
  Version :: int
  StreamID :: UUID

record Object = ObjectStream +
  CreatedAt :: Time
  ExpiresAt :: "Time option"
  Status :: ObjectStatus
  SegmentCount :: int
  EncryptedMetadataNonce :: bytes
  EncryptedMetadata :: bytes
  EncryptedMetadataEncryptedKey :: bytes
  TotalEncryptedSize :: int
  FixedSegmentSize :: int
  Encryption :: EncryptionParameters

record SegmentPosition =
  Part :: "32 word"
  Index :: "32 word"

record RedundancyScheme =
  Algorithm :: "8 word"
  ShareSize :: int
  RequiredShares :: int
  RepairShares :: int
  OptimalShares :: int
  TotalShares :: int

record Piece =
  Number :: "16 word"
  StorageNode :: "256 word"

record Segment =
  StreamID :: UUID
  Position :: SegmentPosition
  RootPieceID :: "256 word"
  EncryptedKeyNonce :: bytes
  EncryptedKey :: bytes
  EncryptedSize :: int
  PlainOffset :: int
  PlainSize :: int
  Redundancy :: RedundancyScheme
  InlineData :: bytes
  Pieces :: "Piece list"

text \<open>
  The error classes of the package. \<^verbatim>\<open>ErrInvalidRequest\<close>, \<^verbatim>\<open>storj.ErrObjectNotFound\<close>,
  \<^verbatim>\<open>ErrObjectLock\<close>, the conflict class and the package's generic \<^verbatim>\<open>Error\<close> class
  each carry a message; the message keeps the fixed text of the source's format string.
\<close>

datatype error =
    ErrInvalidRequest string
  | ErrObjectNotFound string
  | ErrObjectLock string
  | ErrConflict string
  | Error string

fun is_ObjectNotFound :: "error \<Rightarrow> bool" where
  "is_ObjectNotFound (ErrObjectNotFound _) = True"
| "is_ObjectNotFound _ = False"

section \<open>The relational backend\<close>

text \<open>
  The two tables are the lists of the rows as they scan into \<^verbatim>\<open>RawObject\<close> and
  \<^verbatim>\<open>RawSegment\<close> values (\<^verbatim>\<open>Object\<close> and \<^verbatim>\<open>Segment\<close> are declared as these types).
  \<open>failure\<close> is the unexpected backend error, if any, that executing or scanning a
  query runs into; with \<open>None\<close> the query is answered from the tables.
\<close>

record DB =
  objects :: "Object list"
  segments :: "Segment list"
  failure :: "string option"

datatype 'r row_result = ErrNoRows | ScanError string | Row 'r

text \<open>\<^verbatim>\<open>QueryRow(...).Scan(...)\<close>: the first row of the result set, \<^verbatim>\<open>sql.ErrNoRows\<close>
  when the result set is empty, or the backend's error.\<close>

definition QueryRow :: "DB \<Rightarrow> 'r list \<Rightarrow> 'r row_result" where
  "QueryRow db rows =
     (case failure db of
        Some e \<Rightarrow> ScanError e
      | None \<Rightarrow> (case rows of [] \<Rightarrow> ErrNoRows | r # _ \<Rightarrow> Row r))"

text \<open>\<^verbatim>\<open>ORDER BY k ASC\<close>, \<^verbatim>\<open>ORDER BY k DESC\<close> and \<^verbatim>\<open>LIMIT n\<close>. SQL leaves the order of
  rows with equal keys open; the stable sort keeps the table's order among them.\<close>

definition order_by_asc :: "('r \<Rightarrow> int) \<Rightarrow> 'r list \<Rightarrow> 'r list" where
  "order_by_asc k rows = sort_key k rows"

definition order_by_desc :: "('r \<Rightarrow> int) \<Rightarrow> 'r list \<Rightarrow> 'r list" where
  "order_by_desc k rows = sort_key (\<lambda>r. - k r) rows"

definition limit :: "nat \<Rightarrow> 'r list \<Rightarrow> 'r list" where
  "limit n rows = take n rows"

section \<open>Retrieval index (get.go)\<close>

text \<open>
  Modelled from the spec: \<^verbatim>\<open>ObjectLocation.Verify\<close> is called by the sources but is
  not among them. The spec (4.2 and 7) has a request fail with InvalidRequest, before any
  query, when a location field is empty (a missing identifier); the order of the checks
  and the messages follow the same checks written out in \<^verbatim>\<open>BucketEmpty\<close>.
\<close>

definition ObjectLocation_Verify :: "ObjectLocation \<Rightarrow> error option" where
  "ObjectLocation_Verify loc =
     (if IsZero (ProjectID loc) then Some (ErrInvalidRequest ''ProjectID missing'')
      else if BucketName loc = [] then Some (ErrInvalidRequest ''BucketName missing'')
      else if ObjectKey loc = [] then Some (ErrInvalidRequest ''ObjectKey missing'')
      else None)"

text \<open>The request struct \<^verbatim>\<open>GetObjectExactVersion{Version, ObjectLocation}\<close> is passed as
  its two parts.\<close>

definition GetObjectExactVersion_Verify :: "ObjectLocation \<Rightarrow> int \<Rightarrow> error option" where
  "GetObjectExactVersion_Verify loc version =
     (case ObjectLocation_Verify loc of
        Some err \<Rightarrow> Some err
      | None \<Rightarrow>
          if version \<le> 0 then Some (ErrInvalidRequest ''Version invalid'')
          else None)"

definition GetObjectExactVersion :: "DB \<Rightarrow> ObjectLocation \<Rightarrow> int \<Rightarrow> error + Object" where
  "GetObjectExactVersion db opts version =
     (case GetObjectExactVersion_Verify opts version of
        Some err \<Rightarrow> Inl err
      | None \<Rightarrow>
          (case QueryRow db
                  (filter (\<lambda>r. ProjectID r = ProjectID opts \<and>
                                BucketName r = BucketName opts \<and>
                                ObjectKey r = ObjectKey opts \<and>
                                Version r = version \<and>
                                Status r = Committed)
                     (objects db)) of
             ErrNoRows \<Rightarrow> Inl (ErrObjectNotFound ''sql: no rows in result set'')
           | ScanError e \<Rightarrow> Inl (Error (''unable to query object status: '' @ e))
           | Row r \<Rightarrow>
               Inr \<lparr> ProjectID = ProjectID opts,
                     BucketName = BucketName opts,
                     ObjectKey = ObjectKey opts,
                     Version = version,
                     ObjectStream.StreamID = ObjectStream.StreamID r,
                     CreatedAt = CreatedAt r,
                     ExpiresAt = ExpiresAt r,
                     Status = Committed,
                     SegmentCount = SegmentCount r,
                     EncryptedMetadataNonce = EncryptedMetadataNonce r,
                     EncryptedMetadata = EncryptedMetadata r,
                     EncryptedMetadataEncryptedKey = EncryptedMetadataEncryptedKey r,
                     TotalEncryptedSize = TotalEncryptedSize r,
                     FixedSegmentSize = FixedSegmentSize r,
                     Encryption = Encryption r \<rparr>))"

definition GetObjectLatestVersion :: "DB \<Rightarrow> ObjectLocation \<Rightarrow> error + Object" where
  "GetObjectLatestVersion db opts =
     (case ObjectLocation_Verify opts of
        Some err \<Rightarrow> Inl err
      | None \<Rightarrow>
          (case QueryRow db
                  (limit 1 (order_by_desc Version
                     (filter (\<lambda>r. ProjectID r = ProjectID opts \<and>
                                   BucketName r = BucketName opts \<and>
                                   ObjectKey r = ObjectKey opts \<and>
                                   Status r = Committed)
                        (objects db)))) of
             ErrNoRows \<Rightarrow> Inl (ErrObjectNotFound ''sql: no rows in result set'')
           | ScanError e \<Rightarrow> Inl (Error (''unable to query object status: '' @ e))
           | Row r \<Rightarrow>
               Inr \<lparr> ProjectID = ProjectID opts,
                     BucketName = BucketName opts,
                     ObjectKey = ObjectKey opts,
                     Version = Version r,
                     ObjectStream.StreamID = ObjectStream.StreamID r,
                     CreatedAt = CreatedAt r,
                     ExpiresAt = ExpiresAt r,
                     Status = Committed,
                     SegmentCount = SegmentCount r,
                     EncryptedMetadataNonce = EncryptedMetadataNonce r,
                     EncryptedMetadata = EncryptedMetadata r,
                     EncryptedMetadataEncryptedKey = EncryptedMetadataEncryptedKey r,
                     TotalEncryptedSize = TotalEncryptedSize r,
                     FixedSegmentSize = FixedSegmentSize r,
                     Encryption = Encryption r \<rparr>))"

text \<open>
  \<^verbatim>\<open>GetSegmentByPosition\<close>. The query reads \<^verbatim>\<open>FROM objects, segments\<close> with
  conditions on the segment only, so its result set is the product of the two tables
  restricted to the matching segments. \<^verbatim>\<open>SegmentPosition.Encode\<close> is not among the
  sources and is the parameter \<open>Encode\<close>.
\<close>

definition GetSegmentByPosition_Verify :: "UUID \<Rightarrow> error option" where
  "GetSegmentByPosition_Verify streamID =
     (if IsZero streamID then Some (ErrInvalidRequest ''StreamID missing'') else None)"

definition GetSegmentByPosition ::
  "(SegmentPosition \<Rightarrow> 64 word) \<Rightarrow> DB \<Rightarrow> UUID \<Rightarrow> SegmentPosition \<Rightarrow> error + Segment" where
  "GetSegmentByPosition Encode db streamID position =
     (case GetSegmentByPosition_Verify streamID of
        Some err \<Rightarrow> Inl err
      | None \<Rightarrow>
          (case QueryRow db
                  (filter (\<lambda>(obj, seg). StreamID seg = streamID \<and>
                                         Encode (Position seg) = Encode position)
                     (List.product (objects db) (segments db))) of
             ErrNoRows \<Rightarrow> Inl (Error ''segment missing'')
           | ScanError e \<Rightarrow> Inl (Error (''unable to query segment: '' @ e))
           | Row (obj, seg) \<Rightarrow>
               Inr \<lparr> StreamID = streamID,
                     Position = position,
                     RootPieceID = RootPieceID seg,
                     EncryptedKeyNonce = EncryptedKeyNonce seg,
                     EncryptedKey = EncryptedKey seg,
                     EncryptedSize = EncryptedSize seg,
                     PlainOffset = PlainOffset seg,
                     PlainSize = PlainSize seg,
                     Redundancy = Redundancy seg,
                     InlineData = InlineData seg,
                     Pieces = Pieces seg \<rparr>))"

text \<open>
  The scalar subquery shared by \<^verbatim>\<open>GetLatestObjectLastSegment\<close> and
  \<^verbatim>\<open>GetSegmentByOffset\<close>: the stream of the Committed object with the greatest version
  at the location, SQL's NULL (\<open>None\<close>) when there is none. A comparison with NULL
  holds for no row.
\<close>

definition latest_committed_stream :: "DB \<Rightarrow> ObjectLocation \<Rightarrow> UUID option" where
  "latest_committed_stream db opts =
     (case limit 1 (order_by_desc Version
              (filter (\<lambda>r. ProjectID r = ProjectID opts \<and>
                            BucketName r = BucketName opts \<and>
                            ObjectKey r = ObjectKey opts \<and>
                            Status r = Committed)
                 (objects db))) of
        [] \<Rightarrow> None
      | r # _ \<Rightarrow> Some (ObjectStream.StreamID r))"

definition GetSegmentByOffset :: "DB \<Rightarrow> ObjectLocation \<Rightarrow> int \<Rightarrow> error + Segment" where
  "GetSegmentByOffset db opts plainOffset =
     (case ObjectLocation_Verify opts of
        Some err \<Rightarrow> Inl err
      | None \<Rightarrow>
          if plainOffset < 0 then Inl (ErrInvalidRequest ''Invalid PlainOffset'')
          else
            (case QueryRow db
                    (limit 1 (order_by_asc PlainOffset
                       (filter (\<lambda>seg. Some (StreamID seg) = latest_committed_stream db opts \<and>
                                       PlainOffset seg \<le> plainOffset \<and>
                                       PlainSize seg + PlainOffset seg > plainOffset)
                          (segments db)))) of
               ErrNoRows \<Rightarrow> Inl (ErrObjectNotFound ''object or segment missing'')
             | ScanError e \<Rightarrow> Inl (Error (''unable to query segment: '' @ e))
             | Row seg \<Rightarrow> Inr seg))"

text \<open>\<^verbatim>\<open>BucketEmpty\<close>; the request struct is passed as its two fields.\<close>

definition BucketEmpty :: "DB \<Rightarrow> UUID \<Rightarrow> string \<Rightarrow> error + bool" where
  "BucketEmpty db projectID bucketName =
     (if IsZero projectID then Inl (ErrInvalidRequest ''ProjectID missing'')
      else if bucketName = [] then Inl (ErrInvalidRequest ''BucketName missing'')
      else
        (case QueryRow db
                (limit 1 (map (\<lambda>r. (1::int))
                   (filter (\<lambda>r. ProjectID r = projectID \<and> BucketName r = bucketName)
                      (objects db)))) of
           ErrNoRows \<Rightarrow> Inr True
         | ScanError e \<Rightarrow> Inl (Error (''unable to query objects: '' @ e))
         | Row v \<Rightarrow> Inr False))"

section \<open>Precommit constraint engine\<close>

text \<open>
  \<^verbatim>\<open>PrecommitConstraint\<close>, \<^verbatim>\<open>PrecommitDeleteUnversionedWithNonPending\<close>, their request
  and result types and the retention evaluator are not among the sources: only their tests
  are. Every declaration of this section is modelled from sections 3, 4.1, 4.3, 6 and 7 of
  the spec. The engine runs inside the caller's transaction: it takes the tables as the
  transaction sees them and returns them as it leaves them, next to Go's pair of result
  and error. \<open>now\<close> is the instant of the transaction's read snapshot.
\<close>

text \<open>Modelled from the spec: the retention modes of \<^verbatim>\<open>Retention\<close> (3), which is not
  among the sources.\<close>

datatype RetentionMode = NoRetention | Governance | Compliance

text \<open>Modelled from the spec: \<^verbatim>\<open>Retention\<close> (3), mode and retain-until instant.\<close>

record Retention =
  Mode :: RetentionMode
  RetainUntil :: Time

text \<open>Modelled from the spec: a row of the objects table as the engine reads it, which (6)
  has the columns of \<^verbatim>\<open>Object\<close> and the retention mode and retain-until instant.\<close>

record ObjectRow = Object +
  Retention :: Retention

text \<open>Modelled from the spec: the two tables inside the caller's transaction (5, 6).\<close>

record Tx =
  tx_objects :: "ObjectRow list"
  tx_segments :: "Segment list"

text \<open>Modelled from the spec: the named variants of \<^verbatim>\<open>PrecommitDeleteMode\<close> (4.1, rule 4),
  of which the tests name the Object-Lock-aware one. The spec gives the categories of rows
  that a variant sweeps only by example and fixes, for every variant, the retention check
  and the deletion of rule 3; that common part is what the engine below does for each of
  them.\<close>

datatype PrecommitDeleteMode =
    DefaultPrecommitMode
  | SweepPendingPrecommitMode
  | WithObjectLockUnversionedPrecommitMode

text \<open>Modelled from the spec: the request \<^verbatim>\<open>PrecommitConstraint\<close> (3).\<close>

record PrecommitConstraint =
  Location :: ObjectLocation
  Versioned :: bool
  DisallowDelete :: bool
  PrecommitDeleteMode :: PrecommitDeleteMode

text \<open>Modelled from the spec: \<^verbatim>\<open>PrecommitConstraintResult\<close> (3) and its zero value.\<close>

record PrecommitConstraintResult =
  Deleted :: "ObjectRow list"
  DeletedObjectCount :: int
  DeletedSegmentCount :: int
  HighestVersion :: int

definition zero_PrecommitConstraintResult :: PrecommitConstraintResult where
  "zero_PrecommitConstraintResult =
     \<lparr> Deleted = [], DeletedObjectCount = 0, DeletedSegmentCount = 0, HighestVersion = 0 \<rparr>"

text \<open>Modelled from the spec: the retention evaluator (4.3), which is not among the
  sources. An object is delete-protected iff the mode is Compliance and the retain-until
  instant is after \<open>now\<close>.\<close>

definition delete_protected :: "Retention \<Rightarrow> Time \<Rightarrow> bool" where
  "delete_protected ret now = (Mode ret = Compliance \<and> RetainUntil ret > now)"

text \<open>Modelled from the spec: a row is at a location (3) when project, bucket and key
  agree.\<close>

definition at_location :: "ObjectLocation \<Rightarrow> ObjectRow \<Rightarrow> bool" where
  "at_location loc r =
     (ProjectID r = ProjectID loc \<and> BucketName r = BucketName loc \<and> ObjectKey r = ObjectKey loc)"

text \<open>Modelled from the spec: the highest version (4.1, rule 2) is the maximum version
  among the given objects, 0 if there is none.\<close>

fun highest_version :: "ObjectRow list \<Rightarrow> int" where
  "highest_version [] = 0"
| "highest_version (r # rs) = fold max (map Version rs) (Version r)"

text \<open>
  Modelled from the spec: rule 3 of 4.1, the body of the unversioned
  \<^verbatim>\<open>PrecommitConstraint\<close>, which is not among the sources. The candidates are the
  Committed objects at the location. A protected candidate aborts with the Object-Lock
  error and \<open>DisallowDelete\<close> rejects a deletion with the conflict error, both leaving
  the tables as they were; otherwise the candidates and the segments of their streams are
  deleted and reported, and the highest version is taken over the objects that remain at
  the location.
\<close>

definition precommit_delete_unversioned ::
  "Time \<Rightarrow> ObjectLocation \<Rightarrow> bool \<Rightarrow> Tx \<Rightarrow> (PrecommitConstraintResult \<times> error option) \<times> Tx" where
  "precommit_delete_unversioned now loc disallowDelete tx =
     (let candidates = filter (\<lambda>r. at_location loc r \<and> Status r = Committed) (tx_objects tx)
      in if list_ex (\<lambda>c. delete_protected (Retention c) now) candidates
         then ((zero_PrecommitConstraintResult,
                Some (ErrObjectLock ''object is protected by Object Lock settings'')), tx)
         else if disallowDelete \<and> candidates \<noteq> []
         then ((zero_PrecommitConstraintResult,
                Some (ErrConflict ''object already exists'')), tx)
         else
           (let tx' = \<lparr> tx_objects =
                          filter (\<lambda>r. \<not> (at_location loc r \<and> Status r = Committed)) (tx_objects tx),
                        tx_segments =
                          filter (\<lambda>seg. StreamID seg \<notin> set (map ObjectStream.StreamID candidates))
                            (tx_segments tx) \<rparr>
            in ((\<lparr> Deleted = candidates,
                    DeletedObjectCount = int (length candidates),
                    DeletedSegmentCount = sum_list (map SegmentCount candidates),
                    HighestVersion = highest_version (filter (at_location loc) (tx_objects tx')) \<rparr>,
                 None), tx')))"

text \<open>
  Modelled from the spec: \<^verbatim>\<open>PrecommitConstraint\<close> (4.1), which is not among the sources.
  Rule 1: nothing at the location gives the zero-value result, whatever the flags. Rule 2:
  a versioned call deletes nothing and returns the highest version among the objects at
  the location. Rule 3: the unversioned call.
\<close>

definition PrecommitConstraint ::
  "Time \<Rightarrow> PrecommitConstraint \<Rightarrow> Tx \<Rightarrow> (PrecommitConstraintResult \<times> error option) \<times> Tx" where
  "PrecommitConstraint now opts tx =
     (let existing = filter (at_location (Location opts)) (tx_objects tx)
      in if existing = [] then ((zero_PrecommitConstraintResult, None), tx)
         else if Versioned opts
         then ((zero_PrecommitConstraintResult \<lparr> HighestVersion := highest_version existing \<rparr>,
                None), tx)
         else precommit_delete_unversioned now (Location opts) (DisallowDelete opts) tx)"

text \<open>
  Modelled from the spec: \<^verbatim>\<open>PrecommitDeleteUnversionedWithNonPending\<close> (4.1, rule 5),
  which is not among the sources: the same retention-gated deletion, whatever the versioned
  flag, and the zero-value result when nothing exists at the location.
\<close>

definition PrecommitDeleteUnversionedWithNonPending ::
  "Time \<Rightarrow> ObjectLocation \<Rightarrow> Tx \<Rightarrow> (PrecommitConstraintResult \<times> error option) \<times> Tx" where
  "PrecommitDeleteUnversionedWithNonPending now loc tx =
     (if filter (at_location loc) (tx_objects tx) = []
      then ((zero_PrecommitConstraintResult, None), tx)
      else precommit_delete_unversioned now loc False tx)"

section \<open>Example data\<close>

text \<open>A location with two Committed versions and a Pending one above them; the same
  location with the Pending object only; an empty database; a location whose project id
  is the zero UUID.\<close>

definition example_location :: ObjectLocation where
  "example_location = \<lparr> ProjectID = 1, BucketName = ''bucket'', ObjectKey = ''key'' \<rparr>"

definition example_object :: "int \<Rightarrow> UUID \<Rightarrow> ObjectStatus \<Rightarrow> Object" where
  "example_object version streamID status =
     \<lparr> ProjectID = 1, BucketName = ''bucket'', ObjectKey = ''key'',
       Version = version, ObjectStream.StreamID = streamID,
       CreatedAt = 0, ExpiresAt = None, Status = status, SegmentCount = 0,
       EncryptedMetadataNonce = [], EncryptedMetadata = [], EncryptedMetadataEncryptedKey = [],
       TotalEncryptedSize = 0, FixedSegmentSize = 0,
       Encryption = \<lparr> CipherSuite = 0, BlockSize = 0 \<rparr> \<rparr>"

definition example_db :: DB where
  "example_db = \<lparr> objects = [example_object 1 7 Committed, example_object 2 8 Committed,
                               example_object 3 9 Pending],
                   segments = [], failure = None \<rparr>"

definition pending_only_db :: DB where
  "pending_only_db = \<lparr> objects = [example_object 3 9 Pending], segments = [], failure = None \<rparr>"

definition empty_db :: DB where
  "empty_db = \<lparr> objects = [], segments = [], failure = None \<rparr>"

definition unnamed_project_location :: ObjectLocation where
  "unnamed_project_location = \<lparr> ProjectID = 0, BucketName = ''bucket'', ObjectKey = ''key'' \<rparr>"

text \<open>Segments: the stream of the latest Committed version holds the plain ranges
  \<open>[0, 10)\<close> and \<open>[10, 20)\<close>, listed out of order; a database that holds a segment
  and no object.\<close>

definition example_segment :: "UUID \<Rightarrow> 32 word \<Rightarrow> int \<Rightarrow> int \<Rightarrow> Segment" where
  "example_segment streamID index plainOffset plainSize =
     \<lparr> StreamID = streamID, Position = \<lparr> Part = 0, Index = index \<rparr>, RootPieceID = 0,
       EncryptedKeyNonce = [], EncryptedKey = [], EncryptedSize = plainSize,
       PlainOffset = plainOffset, PlainSize = plainSize,
       Redundancy = \<lparr> Algorithm = 0, ShareSize = 0, RequiredShares = 0, RepairShares = 0,
                      OptimalShares = 0, TotalShares = 0 \<rparr>,
       InlineData = [], Pieces = [] \<rparr>"

definition segments_db :: DB where
  "segments_db = \<lparr> objects = [example_object 1 7 Committed, example_object 2 8 Committed,
                               example_object 3 9 Pending],
                    segments = [example_segment 7 0 0 100, example_segment 8 1 10 10,
                                example_segment 8 0 0 10, example_segment 9 0 0 100],
                    failure = None \<rparr>"

definition orphan_segment_db :: DB where
  "orphan_segment_db = \<lparr> objects = [], segments = [example_segment 7 0 0 100], failure = None \<rparr>"

text \<open>A position encoding to evaluate \<^verbatim>\<open>GetSegmentByPosition\<close> with: the part in the
  upper and the index in the lower 32 bits of the column.\<close>

definition Encode_packed :: "SegmentPosition \<Rightarrow> 64 word" where
  "Encode_packed position = push_bit 32 (ucast (Part position)) OR ucast (Index position)"

text \<open>A conversion to evaluate the coupon listings with: it accepts exactly the 16 bytes of
  a UUID. The coupon row has a user id of three bytes.\<close>

definition BytesToUUID_16 :: "8 word list \<Rightarrow> goerror + 128 word" where
  "BytesToUUID_16 bs =
     (if length bs = 16 then Inr (word_rcat bs) else Inl (Err ''bytes slice has wrong length''))"

definition malformed_coupon :: dbx_Coupon where
  "malformed_coupon =
     \<lparr> Id = replicate 16 1, ProjectId = replicate 16 2, UserId = [3, 4, 5],
       Amount = 100, Description = ''promo'', Type = 0, Status = 0, Duration = 2,
       CreatedAt = 0 \<rparr>"

text \<open>Rows of the objects table with retention, at the example location; a transaction
  that sees a Committed object with three segments under Compliance retention until the
  instant 3700, and one that sees the same object with a retention that ended at 40
  together with a Pending object at the next version. The calls below run at the instant
  100.\<close>

definition example_row :: "int \<Rightarrow> UUID \<Rightarrow> ObjectStatus \<Rightarrow> int \<Rightarrow> Retention \<Rightarrow> ObjectRow" where
  "example_row version streamID status segmentCount retention =
     \<lparr> ProjectID = 1, BucketName = ''bucket'', ObjectKey = ''key'',
       Version = version, ObjectStream.StreamID = streamID,
       CreatedAt = 0, ExpiresAt = None, Status = status, SegmentCount = segmentCount,
       EncryptedMetadataNonce = [], EncryptedMetadata = [], EncryptedMetadataEncryptedKey = [],
       TotalEncryptedSize = 0, FixedSegmentSize = 0,
       Encryption = \<lparr> CipherSuite = 0, BlockSize = 0 \<rparr>,
       Retention = retention \<rparr>"

definition other_location :: ObjectLocation where
  "other_location = \<lparr> ProjectID = 1, BucketName = ''bucket'', ObjectKey = ''other key'' \<rparr>"

definition locked_tx :: Tx where
  "locked_tx =
     \<lparr> tx_objects = [example_row 1 7 Committed 3 \<lparr> Mode = Compliance, RetainUntil = 3700 \<rparr>],
       tx_segments = [example_segment 7 0 0 10, example_segment 7 1 10 10,
                      example_segment 7 2 20 10] \<rparr>"


definition object_lock_precommit :: PrecommitConstraint where
  "object_lock_precommit =
     \<lparr> Location = example_location, Versioned = False, DisallowDelete = False,
       PrecommitDeleteMode = WithObjectLockUnversionedPrecommitMode \<rparr>"

section \<open>Properties of the coupon listings\<close>

text \<open>
  Claim C9. The claim wants every conversion error of a listing returned to the caller.
  \<^verbatim>\<open>couponsFromDbxSlice\<close> reports the error of the malformed row and \<^verbatim>\<open>List\<close> returns
  it, but \<^verbatim>\<open>ListPaged\<close> answers the same rows with the zero-value page and no error.
\<close>

theorem ListPaged_swallows_conversion_error:
  "couponsFromDbxSlice BytesToUUID_16 [malformed_coupon]
     = ([], Some (Err ''bytes slice has wrong length''))
   \<and> List_coupons BytesToUUID_16 ([malformed_coupon], None)
     = ([], Some (Err ''bytes slice has wrong length''))
   \<and> ListPaged BytesToUUID_16 ([malformed_coupon], None) 0 10
     = Returned (zero_CouponsPage, None)"
  by (simp add: ListPaged_def List_coupons_def couponsFromDbxSlice_def fromDBXCoupon_def
        BytesToUUID_16_def malformed_coupon_def)

text \<open>The conversion of a slice keeps every row that converts and combines the errors of
  all the rows that do not, in the order of the rows.\<close>

lemma couponsFromDbxSlice_loop_collects:
  "couponsFromDbxSlice_loop BytesToUUID couponsDbx coupons errors =
     (coupons @ map fst (filter (\<lambda>p. snd p = None) (map (fromDBXCoupon BytesToUUID) couponsDbx)),
      errors @ List.map_filter snd (map (fromDBXCoupon BytesToUUID) couponsDbx))"
proof (induction couponsDbx arbitrary: coupons errors)
  case Nil
  show ?case by (simp add: List.map_filter_simps)
next
  case (Cons couponDbx rest)
  show ?case
    by (cases "fromDBXCoupon BytesToUUID couponDbx")
       (auto simp: Cons.IH List.map_filter_simps split: option.splits)
qed

lemma couponsFromDbxSlice_collects:
  "couponsFromDbxSlice BytesToUUID couponsDbx =
     (map fst (filter (\<lambda>p. snd p = None) (map (fromDBXCoupon BytesToUUID) couponsDbx)),
      Combine (List.map_filter snd (map (fromDBXCoupon BytesToUUID) couponsDbx)))"
  by (simp add: couponsFromDbxSlice_def couponsFromDbxSlice_loop_collects)

text \<open>Whatever the rows and the conversion, the paged listing has no error to return once
  its query has succeeded.\<close>

lemma ListPaged_conversion_error:
  assumes "of_nat (length dbxCoupons) \<noteq> lim + 1"
    and "snd (couponsFromDbxSlice BytesToUUID dbxCoupons) = Some err"
  shows "ListPaged BytesToUUID (dbxCoupons, None) offset lim = Returned (zero_CouponsPage, None)"
proof -
  obtain coupons where "couponsFromDbxSlice BytesToUUID dbxCoupons = (coupons, Some err)"
    using assms(2) by (cases "couponsFromDbxSlice BytesToUUID dbxCoupons") simp
  then show ?thesis using assms(1) by (simp add: ListPaged_def)
qed

lemma ListPaged_reports_no_conversion_error:
  "ListPaged BytesToUUID (dbxCoupons, None) offset lim = Returned (page, err) \<Longrightarrow> err = None"
  by (auto simp: ListPaged_def Let_def split: prod.splits option.splits if_splits)

section \<open>Properties of the retrieval index\<close>

subsection \<open>Queries\<close>

lemma QueryRow_ok:
  "failure db = None \<Longrightarrow> QueryRow db rows = (case rows of [] \<Rightarrow> ErrNoRows | r # _ \<Rightarrow> Row r)"
  by (simp add: QueryRow_def)

lemma QueryRow_failed:
  "failure db = Some e \<Longrightarrow> QueryRow db rows = ScanError e"
  by (simp add: QueryRow_def)

lemma filter_hd_row:
  "filter P rows = r # rest \<Longrightarrow> r \<in> set rows \<and> P r"
proof -
  assume "filter P rows = r # rest"
  then have "r \<in> set (filter P rows)" by simp
  then show ?thesis by simp
qed

lemma sort_key_least:
  assumes "rows \<noteq> []"
  obtains r rest where "sort_key k rows = r # rest" "r \<in> set rows" "\<forall>x\<in>set rows. k r \<le> k x"
proof -
  have ne: "sort_key k rows \<noteq> []" using assms by (metis length_sort length_0_conv)
  then obtain r rest where eq: "sort_key k rows = r # rest" by (cases "sort_key k rows") auto
  have s: "sorted (map k (sort_key k rows))" by (rule sorted_sort_key)
  have st: "set (sort_key k rows) = set rows" by simp
  have "r \<in> set rows" using eq st by (metis list.set_intros(1))
  moreover have "\<forall>x\<in>set rows. k r \<le> k x"
  proof
    fix x assume "x \<in> set rows"
    then have "x \<in> set (r # rest)" using eq st by simp
    then show "k r \<le> k x" using s eq by auto
  qed
  ultimately show ?thesis using that eq by blast
qed

lemma limit_1_order_by_desc:
  "rows \<noteq> [] \<Longrightarrow> \<exists>r. limit 1 (order_by_desc k rows) = [r] \<and> r \<in> set rows \<and> (\<forall>x\<in>set rows. k x \<le> k r)"
proof -
  assume "rows \<noteq> []"
  then obtain r rest where "sort_key (\<lambda>r. - k r) rows = r # rest" "r \<in> set rows"
    "\<forall>x\<in>set rows. - k r \<le> - k x" by (rule sort_key_least)
  then show ?thesis by (auto simp: limit_def order_by_desc_def)
qed

lemma limit_1_order_by_asc:
  "rows \<noteq> [] \<Longrightarrow> \<exists>r. limit 1 (order_by_asc k rows) = [r] \<and> r \<in> set rows \<and> (\<forall>x\<in>set rows. k r \<le> k x)"
proof -
  assume "rows \<noteq> []"
  then obtain r rest where "sort_key k rows = r # rest" "r \<in> set rows"
    "\<forall>x\<in>set rows. k r \<le> k x" by (rule sort_key_least)
  then show ?thesis by (auto simp: limit_def order_by_asc_def)
qed

lemma greatest_row_none:
  assumes "\<forall>r\<in>set rows. \<not> P r"
  shows "limit 1 (order_by_desc k (filter P rows)) = []"
proof -
  have "filter P rows = []" using assms by (simp add: filter_empty_conv)
  then show ?thesis by (simp add: limit_def order_by_desc_def)
qed

lemma greatest_row_some:
  assumes "\<exists>r\<in>set rows. P r"
  obtains r where "r \<in> set rows" "P r" "\<forall>r'\<in>set rows. P r' \<longrightarrow> k r' \<le> k r"
    "limit 1 (order_by_desc k (filter P rows)) = [r]"
proof -
  have "filter P rows \<noteq> []" using assms by (simp add: filter_empty_conv)
  from limit_1_order_by_desc [OF this, of k]
  obtain r where r: "limit 1 (order_by_desc k (filter P rows)) = [r]"
    "r \<in> set (filter P rows)" "\<forall>x\<in>set (filter P rows). k x \<le> k r"
    by blast
  have "r \<in> set rows" "P r" "\<forall>r'\<in>set rows. P r' \<longrightarrow> k r' \<le> k r"
    using r(2,3) by simp_all
  then show ?thesis using that r(1) by blast
qed

lemma least_row_none:
  assumes "\<forall>r\<in>set rows. \<not> P r"
  shows "limit 1 (order_by_asc k (filter P rows)) = []"
proof -
  have "filter P rows = []" using assms by (simp add: filter_empty_conv)
  then show ?thesis by (simp add: limit_def order_by_asc_def)
qed

lemma least_row_some:
  assumes "\<exists>r\<in>set rows. P r"
  obtains r where "r \<in> set rows" "P r" "\<forall>r'\<in>set rows. P r' \<longrightarrow> k r \<le> k r'"
    "limit 1 (order_by_asc k (filter P rows)) = [r]"
proof -
  have "filter P rows \<noteq> []" using assms by (simp add: filter_empty_conv)
  from limit_1_order_by_asc [OF this, of k]
  obtain r where r: "limit 1 (order_by_asc k (filter P rows)) = [r]"
    "r \<in> set (filter P rows)" "\<forall>x\<in>set (filter P rows). k r \<le> k x"
    by blast
  have "r \<in> set rows" "P r" "\<forall>r'\<in>set rows. P r' \<longrightarrow> k r \<le> k r'"
    using r(2,3) by simp_all
  then show ?thesis using that r(1) by blast
qed

lemma ObjectLocation_Verify_None:
  "\<not> IsZero (ProjectID opts) \<Longrightarrow> BucketName opts \<noteq> [] \<Longrightarrow> ObjectKey opts \<noteq> [] \<Longrightarrow>
     ObjectLocation_Verify opts = None"
  by (simp add: ObjectLocation_Verify_def)

lemma ObjectLocation_Verify_Some:
  "IsZero (ProjectID opts) \<or> BucketName opts = [] \<or> ObjectKey opts = [] \<Longrightarrow>
     \<exists>msg. ObjectLocation_Verify opts = Some (ErrInvalidRequest msg)"
  by (cases "IsZero (ProjectID opts)"; cases "BucketName opts = []"; cases "ObjectKey opts = []";
      simp add: ObjectLocation_Verify_def)

subsection \<open>GetObjectExactVersion\<close>

lemma GetObjectExactVersion_invalid:
  assumes "version \<le> 0 \<or> IsZero (ProjectID opts) \<or> BucketName opts = [] \<or> ObjectKey opts = []"
  shows "\<exists>msg. \<forall>db. GetObjectExactVersion db opts version = Inl (ErrInvalidRequest msg)"
proof -
  have "\<exists>msg. GetObjectExactVersion_Verify opts version = Some (ErrInvalidRequest msg)"
    using assms
    by (cases "IsZero (ProjectID opts)"; cases "BucketName opts = []"; cases "ObjectKey opts = []";
        simp add: GetObjectExactVersion_Verify_def ObjectLocation_Verify_def)
  then obtain msg where "GetObjectExactVersion_Verify opts version = Some (ErrInvalidRequest msg)" ..
  then have "\<forall>db. GetObjectExactVersion db opts version = Inl (ErrInvalidRequest msg)"
    by (simp add: GetObjectExactVersion_def)
  then show ?thesis ..
qed

lemma GetObjectExactVersion_valid:
  assumes a: "0 < version" "\<not> IsZero (ProjectID opts)" "BucketName opts \<noteq> []" "ObjectKey opts \<noteq> []"
    and f: "failure db = None"
  shows "if \<exists>r\<in>set (objects db). ProjectID r = ProjectID opts \<and> BucketName r = BucketName opts \<and>
               ObjectKey r = ObjectKey opts \<and> Version r = version \<and> Status r = Committed
         then \<exists>r\<in>set (objects db). ProjectID r = ProjectID opts \<and> BucketName r = BucketName opts \<and>
               ObjectKey r = ObjectKey opts \<and> Version r = version \<and> Status r = Committed \<and>
               GetObjectExactVersion db opts version = Inr r
         else \<exists>msg. GetObjectExactVersion db opts version = Inl (ErrObjectNotFound msg)"
proof -
  let ?P = "\<lambda>r. ProjectID r = ProjectID opts \<and> BucketName r = BucketName opts \<and>
               ObjectKey r = ObjectKey opts \<and> Version r = version \<and> Status r = Committed"
  have v: "GetObjectExactVersion_Verify opts version = None"
    using a by (simp add: GetObjectExactVersion_Verify_def ObjectLocation_Verify_def)
  show ?thesis
  proof (cases "filter ?P (objects db)")
    case Nil
    then have "\<not> (\<exists>r\<in>set (objects db). ?P r)" by (simp add: filter_empty_conv)
    moreover have "GetObjectExactVersion db opts version = Inl (ErrObjectNotFound ''sql: no rows in result set'')"
      using Nil v f by (simp add: GetObjectExactVersion_def QueryRow_ok)
    ultimately show ?thesis by auto
  next
    case (Cons r rest)
    then have r: "r \<in> set (objects db)" "?P r" using filter_hd_row[OF Cons] by auto
    have "GetObjectExactVersion db opts version = Inr r"
      using Cons v f r by (cases r) (simp add: GetObjectExactVersion_def QueryRow_ok)
    then show ?thesis using r by auto
  qed
qed

lemma GetObjectExactVersion_failed:
  assumes a: "0 < version" "\<not> IsZero (ProjectID opts)" "BucketName opts \<noteq> []" "ObjectKey opts \<noteq> []"
    and f: "failure db = Some e"
  shows "GetObjectExactVersion db opts version = Inl (Error (''unable to query object status: '' @ e))"
proof -
  have v: "GetObjectExactVersion_Verify opts version = None"
    using a by (simp add: GetObjectExactVersion_Verify_def ObjectLocation_Verify_def)
  show ?thesis using v f by (simp add: GetObjectExactVersion_def QueryRow_failed)
qed

text \<open>
  Claim C5. \<^verbatim>\<open>GetObjectExactVersion\<close> fails with InvalidRequest, whatever the database
  holds or does, when the version is not positive or a field of the location is empty.
  For a valid request whose query the backend answers, it returns the Committed row of
  the objects table at exactly the requested location and version when there is one, and
  fails with ObjectNotFound when there is none, be it that no row has that version or
  that the row is not Committed.
\<close>

theorem GetObjectExactVersion_spec:
  "(version \<le> 0 \<or> IsZero (ProjectID opts) \<or> BucketName opts = [] \<or> ObjectKey opts = [] \<longrightarrow>
      (\<exists>msg. \<forall>db. GetObjectExactVersion db opts version = Inl (ErrInvalidRequest msg)))
   \<and> (0 < version \<and> \<not> IsZero (ProjectID opts) \<and> BucketName opts \<noteq> [] \<and> ObjectKey opts \<noteq> [] \<and>
        failure db = None \<longrightarrow>
        (if \<exists>r\<in>set (objects db). ProjectID r = ProjectID opts \<and> BucketName r = BucketName opts \<and>
               ObjectKey r = ObjectKey opts \<and> Version r = version \<and> Status r = Committed
         then \<exists>r\<in>set (objects db). ProjectID r = ProjectID opts \<and> BucketName r = BucketName opts \<and>
               ObjectKey r = ObjectKey opts \<and> Version r = version \<and> Status r = Committed \<and>
               GetObjectExactVersion db opts version = Inr r
         else \<exists>msg. GetObjectExactVersion db opts version = Inl (ErrObjectNotFound msg)))"
proof (rule conjI)
  show "version \<le> 0 \<or> IsZero (ProjectID opts) \<or> BucketName opts = [] \<or> ObjectKey opts = [] \<longrightarrow>
      (\<exists>msg. \<forall>db. GetObjectExactVersion db opts version = Inl (ErrInvalidRequest msg))"
    by (rule impI) (rule GetObjectExactVersion_invalid)
next
  show "0 < version \<and> \<not> IsZero (ProjectID opts) \<and> BucketName opts \<noteq> [] \<and> ObjectKey opts \<noteq> [] \<and>
        failure db = None \<longrightarrow>
        (if \<exists>r\<in>set (objects db). ProjectID r = ProjectID opts \<and> BucketName r = BucketName opts \<and>
               ObjectKey r = ObjectKey opts \<and> Version r = version \<and> Status r = Committed
         then \<exists>r\<in>set (objects db). ProjectID r = ProjectID opts \<and> BucketName r = BucketName opts \<and>
               ObjectKey r = ObjectKey opts \<and> Version r = version \<and> Status r = Committed \<and>
               GetObjectExactVersion db opts version = Inr r
         else \<exists>msg. GetObjectExactVersion db opts version = Inl (ErrObjectNotFound msg))"
    by (rule impI, rule GetObjectExactVersion_valid) simp_all
qed

text \<open>Version 0 is invalid, version 2 is Committed, version 3 is Pending and version 4
  does not exist.\<close>

theorem GetObjectExactVersion_spec_witness:
  "(\<exists>msg. \<forall>db. GetObjectExactVersion db example_location 0 = Inl (ErrInvalidRequest msg))
   \<and> GetObjectExactVersion example_db example_location 2 = Inr (example_object 2 8 Committed)
   \<and> (\<exists>msg. GetObjectExactVersion example_db example_location 3 = Inl (ErrObjectNotFound msg))
   \<and> (\<exists>msg. GetObjectExactVersion example_db example_location 4 = Inl (ErrObjectNotFound msg))"
  using GetObjectExactVersion_spec [of 0 example_location example_db]
        GetObjectExactVersion_spec [of 2 example_location example_db]
        GetObjectExactVersion_spec [of 3 example_location example_db]
        GetObjectExactVersion_spec [of 4 example_location example_db]
  by (simp add: example_location_def example_db_def example_object_def IsZero_def)

text \<open>
  Claim C10. Whenever \<^verbatim>\<open>GetObjectExactVersion\<close> succeeds, the project, bucket, key and
  version of the returned object are those of the request and its status is Committed.
\<close>

theorem GetObjectExactVersion_result_fields:
  "GetObjectExactVersion db opts version = Inr obj \<Longrightarrow>
     ProjectID obj = ProjectID opts \<and> BucketName obj = BucketName opts \<and>
     ObjectKey obj = ObjectKey opts \<and> Version obj = version \<and> Status obj = Committed"
  by (auto simp: GetObjectExactVersion_def split: option.splits row_result.splits)

theorem GetObjectExactVersion_result_fields_witness:
  "GetObjectExactVersion example_db example_location 2 = Inr (example_object 2 8 Committed)
   \<and> ProjectID (example_object 2 8 Committed) = ProjectID example_location
   \<and> BucketName (example_object 2 8 Committed) = BucketName example_location
   \<and> ObjectKey (example_object 2 8 Committed) = ObjectKey example_location
   \<and> Version (example_object 2 8 Committed) = 2
   \<and> Status (example_object 2 8 Committed) = Committed"
proof -
  have h: "GetObjectExactVersion example_db example_location 2 = Inr (example_object 2 8 Committed)"
    by (simp add: GetObjectExactVersion_def GetObjectExactVersion_Verify_def
          ObjectLocation_Verify_def QueryRow_def IsZero_def
          example_location_def example_db_def example_object_def)
  show ?thesis using h GetObjectExactVersion_result_fields [OF h] by simp
qed

subsection \<open>GetObjectLatestVersion\<close>

lemma GetObjectLatestVersion_invalid:
  assumes "IsZero (ProjectID opts) \<or> BucketName opts = [] \<or> ObjectKey opts = []"
  shows "\<exists>msg. \<forall>db. GetObjectLatestVersion db opts = Inl (ErrInvalidRequest msg)"
proof -
  from ObjectLocation_Verify_Some [OF assms]
  obtain msg where "ObjectLocation_Verify opts = Some (ErrInvalidRequest msg)" ..
  then have "\<forall>db. GetObjectLatestVersion db opts = Inl (ErrInvalidRequest msg)"
    by (simp add: GetObjectLatestVersion_def)
  then show ?thesis ..
qed

lemma GetObjectLatestVersion_valid:
  assumes a: "\<not> IsZero (ProjectID opts)" "BucketName opts \<noteq> []" "ObjectKey opts \<noteq> []"
    and f: "failure db = None"
  shows "if \<exists>r\<in>set (objects db). ProjectID r = ProjectID opts \<and> BucketName r = BucketName opts \<and>
               ObjectKey r = ObjectKey opts \<and> Status r = Committed
         then \<exists>r\<in>set (objects db). ProjectID r = ProjectID opts \<and> BucketName r = BucketName opts \<and>
               ObjectKey r = ObjectKey opts \<and> Status r = Committed \<and>
               (\<forall>r'\<in>set (objects db). ProjectID r' = ProjectID opts \<and> BucketName r' = BucketName opts \<and>
                   ObjectKey r' = ObjectKey opts \<and> Status r' = Committed \<longrightarrow> Version r' \<le> Version r) \<and>
               GetObjectLatestVersion db opts = Inr r
         else \<exists>msg. GetObjectLatestVersion db opts = Inl (ErrObjectNotFound msg)"
proof -
  let ?P = "\<lambda>r. ProjectID r = ProjectID opts \<and> BucketName r = BucketName opts \<and>
               ObjectKey r = ObjectKey opts \<and> Status r = Committed"
  have v: "ObjectLocation_Verify opts = None" using a by (rule ObjectLocation_Verify_None)
  show ?thesis
  proof (cases "\<exists>r\<in>set (objects db). ?P r")
    case False
    then have "limit 1 (order_by_desc Version (filter ?P (objects db))) = []"
      by (intro greatest_row_none) simp
    then have "GetObjectLatestVersion db opts = Inl (ErrObjectNotFound ''sql: no rows in result set'')"
      using v f by (simp add: GetObjectLatestVersion_def QueryRow_ok)
    then show ?thesis using False by auto
  next
    case True
    from greatest_row_some [OF True, of Version]
    obtain r where r: "r \<in> set (objects db)" "?P r"
      "\<forall>r'\<in>set (objects db). ?P r' \<longrightarrow> Version r' \<le> Version r"
      "limit 1 (order_by_desc Version (filter ?P (objects db))) = [r]"
      by blast
    have "GetObjectLatestVersion db opts = Inr r"
      using v f r(2,4) by (cases r) (simp add: GetObjectLatestVersion_def QueryRow_ok)
    then show ?thesis using True r(1-3) by auto
  qed
qed

text \<open>
  Claim C4, amended. For a location whose project id, bucket name and object key are all
  present, and a query that the backend answers, \<^verbatim>\<open>GetObjectLatestVersion\<close> returns the
  Committed row with the greatest version at the location, and fails with ObjectNotFound
  when no row at the location is Committed, whatever Pending rows are there and whatever
  their versions. For a location with a missing field it fails with InvalidRequest,
  whatever the database holds.
\<close>

theorem GetObjectLatestVersion_spec:
  "(IsZero (ProjectID opts) \<or> BucketName opts = [] \<or> ObjectKey opts = [] \<longrightarrow>
      (\<exists>msg. \<forall>db. GetObjectLatestVersion db opts = Inl (ErrInvalidRequest msg)))
   \<and> (\<not> IsZero (ProjectID opts) \<and> BucketName opts \<noteq> [] \<and> ObjectKey opts \<noteq> [] \<and>
        failure db = None \<longrightarrow>
        (if \<exists>r\<in>set (objects db). ProjectID r = ProjectID opts \<and> BucketName r = BucketName opts \<and>
               ObjectKey r = ObjectKey opts \<and> Status r = Committed
         then \<exists>r\<in>set (objects db). ProjectID r = ProjectID opts \<and> BucketName r = BucketName opts \<and>
               ObjectKey r = ObjectKey opts \<and> Status r = Committed \<and>
               (\<forall>r'\<in>set (objects db). ProjectID r' = ProjectID opts \<and> BucketName r' = BucketName opts \<and>
                   ObjectKey r' = ObjectKey opts \<and> Status r' = Committed \<longrightarrow> Version r' \<le> Version r) \<and>
               GetObjectLatestVersion db opts = Inr r
         else \<exists>msg. GetObjectLatestVersion db opts = Inl (ErrObjectNotFound msg)))"
proof (rule conjI)
  show "IsZero (ProjectID opts) \<or> BucketName opts = [] \<or> ObjectKey opts = [] \<longrightarrow>
      (\<exists>msg. \<forall>db. GetObjectLatestVersion db opts = Inl (ErrInvalidRequest msg))"
    by (rule impI) (rule GetObjectLatestVersion_invalid)
next
  show "\<not> IsZero (ProjectID opts) \<and> BucketName opts \<noteq> [] \<and> ObjectKey opts \<noteq> [] \<and>
        failure db = None \<longrightarrow>
        (if \<exists>r\<in>set (objects db). ProjectID r = ProjectID opts \<and> BucketName r = BucketName opts \<and>
               ObjectKey r = ObjectKey opts \<and> Status r = Committed
         then \<exists>r\<in>set (objects db). ProjectID r = ProjectID opts \<and> BucketName r = BucketName opts \<and>
               ObjectKey r = ObjectKey opts \<and> Status r = Committed \<and>
               (\<forall>r'\<in>set (objects db). ProjectID r' = ProjectID opts \<and> BucketName r' = BucketName opts \<and>
                   ObjectKey r' = ObjectKey opts \<and> Status r' = Committed \<longrightarrow> Version r' \<le> Version r) \<and>
               GetObjectLatestVersion db opts = Inr r
         else \<exists>msg. GetObjectLatestVersion db opts = Inl (ErrObjectNotFound msg))"
    by (rule impI, rule GetObjectLatestVersion_valid) simp_all
qed

text \<open>The latest Committed version of the example is 2, below the Pending version 3; with
  the Pending object alone nothing is found.\<close>

theorem GetObjectLatestVersion_spec_witness:
  "(\<exists>msg. \<forall>db. GetObjectLatestVersion db unnamed_project_location = Inl (ErrInvalidRequest msg))
   \<and> GetObjectLatestVersion example_db example_location = Inr (example_object 2 8 Committed)
   \<and> (\<exists>msg. GetObjectLatestVersion pending_only_db example_location = Inl (ErrObjectNotFound msg))"
  using GetObjectLatestVersion_spec [of unnamed_project_location example_db]
        GetObjectLatestVersion_spec [of example_location example_db]
        GetObjectLatestVersion_spec [of example_location pending_only_db]
  by (simp add: example_location_def example_db_def example_object_def IsZero_def
        pending_only_db_def unnamed_project_location_def)

text \<open>
  Claim C4 as stated, for every location: at the location without a project id no
  Committed object exists in the empty database, and the call fails with InvalidRequest,
  not with ObjectNotFound.
\<close>

theorem GetObjectLatestVersion_counterexample:
  "objects empty_db = [] \<and>
   GetObjectLatestVersion empty_db unnamed_project_location
     = Inl (ErrInvalidRequest ''ProjectID missing'') \<and>
   \<not> is_ObjectNotFound (ErrInvalidRequest ''ProjectID missing'')"
  by (simp add: GetObjectLatestVersion_def ObjectLocation_Verify_def IsZero_def
        unnamed_project_location_def empty_db_def)

subsection \<open>GetSegmentByPosition\<close>

text \<open>
  Claim C6. The claim wants the matching segment returned when it exists and the
  ObjectNotFound kind when it does not. For a stream and position without a segment the
  call fails with the package's generic error class; and because the query also ranges
  over the objects table, a segment that exists is not found while that table is empty.
\<close>

theorem GetSegmentByPosition_missing_is_generic_error:
  "GetSegmentByPosition Encode_packed empty_db 7 \<lparr> Part = 0, Index = 0 \<rparr> = Inl (Error ''segment missing'')
   \<and> \<not> is_ObjectNotFound (Error ''segment missing'')
   \<and> example_segment 7 0 0 100 \<in> set (segments orphan_segment_db)
   \<and> GetSegmentByPosition Encode_packed orphan_segment_db 7 \<lparr> Part = 0, Index = 0 \<rparr>
       = Inl (Error ''segment missing'')"
  by (simp add: GetSegmentByPosition_def GetSegmentByPosition_Verify_def IsZero_def QueryRow_def
        empty_db_def orphan_segment_db_def)

text \<open>No input makes the call fail with the ObjectNotFound kind; with an object in the
  table the segment of the example is found.\<close>

lemma GetSegmentByPosition_never_not_found:
  "GetSegmentByPosition Encode db streamID position \<noteq> Inl (ErrObjectNotFound msg)"
  by (simp add: GetSegmentByPosition_def GetSegmentByPosition_Verify_def QueryRow_def
      split: option.splits list.splits prod.splits)

lemma GetSegmentByPosition_found:
  "GetSegmentByPosition Encode_packed segments_db 8 \<lparr> Part = 0, Index = 1 \<rparr>
     = Inr (example_segment 8 1 10 10)"
  by (simp add: GetSegmentByPosition_def GetSegmentByPosition_Verify_def IsZero_def QueryRow_def
        segments_db_def example_segment_def example_object_def Encode_packed_def)

subsection \<open>GetSegmentByOffset\<close>

lemma latest_committed_stream_cases:
  "if \<exists>r\<in>set (objects db). ProjectID r = ProjectID opts \<and> BucketName r = BucketName opts \<and>
          ObjectKey r = ObjectKey opts \<and> Status r = Committed
   then \<exists>r\<in>set (objects db). (ProjectID r = ProjectID opts \<and> BucketName r = BucketName opts \<and>
          ObjectKey r = ObjectKey opts \<and> Status r = Committed) \<and>
          (\<forall>r'\<in>set (objects db). ProjectID r' = ProjectID opts \<and> BucketName r' = BucketName opts \<and>
              ObjectKey r' = ObjectKey opts \<and> Status r' = Committed \<longrightarrow> Version r' \<le> Version r) \<and>
          latest_committed_stream db opts = Some (ObjectStream.StreamID r)
   else latest_committed_stream db opts = None"
proof -
  let ?P = "\<lambda>r. ProjectID r = ProjectID opts \<and> BucketName r = BucketName opts \<and>
               ObjectKey r = ObjectKey opts \<and> Status r = Committed"
  show ?thesis
  proof (cases "\<exists>r\<in>set (objects db). ?P r")
    case False
    then have "limit 1 (order_by_desc Version (filter ?P (objects db))) = []"
      by (intro greatest_row_none) simp
    then have "latest_committed_stream db opts = None"
      by (simp add: latest_committed_stream_def)
    then show ?thesis using False by auto
  next
    case True
    from greatest_row_some [OF True, of Version]
    obtain r where r: "r \<in> set (objects db)" "?P r"
      "\<forall>r'\<in>set (objects db). ?P r' \<longrightarrow> Version r' \<le> Version r"
      "limit 1 (order_by_desc Version (filter ?P (objects db))) = [r]"
      by blast
    have "latest_committed_stream db opts = Some (ObjectStream.StreamID r)"
      using r(4) by (simp add: latest_committed_stream_def)
    then show ?thesis using True r(1-3) by auto
  qed
qed

lemma GetSegmentByOffset_no_stream:
  assumes v: "ObjectLocation_Verify opts = None" and p: "0 \<le> plainOffset" and f: "failure db = None"
    and l: "latest_committed_stream db opts = None"
  shows "GetSegmentByOffset db opts plainOffset = Inl (ErrObjectNotFound ''object or segment missing'')"
  using v p f l by (simp add: GetSegmentByOffset_def QueryRow_ok limit_def order_by_asc_def)

lemma GetSegmentByOffset_no_segment:
  assumes v: "ObjectLocation_Verify opts = None" and p: "0 \<le> plainOffset" and f: "failure db = None"
    and l: "latest_committed_stream db opts = Some sid"
    and n: "\<not> (\<exists>seg\<in>set (segments db). StreamID seg = sid \<and>
              PlainOffset seg \<le> plainOffset \<and> plainOffset < PlainSize seg + PlainOffset seg)"
  shows "GetSegmentByOffset db opts plainOffset = Inl (ErrObjectNotFound ''object or segment missing'')"
proof -
  let ?Q = "\<lambda>seg. StreamID seg = sid \<and>
              PlainOffset seg \<le> plainOffset \<and> plainOffset < PlainSize seg + PlainOffset seg"
  have "limit 1 (order_by_asc PlainOffset (filter ?Q (segments db))) = []"
    using n by (intro least_row_none) simp
  then show ?thesis
    using v p f l by (simp add: GetSegmentByOffset_def QueryRow_ok)
qed

lemma GetSegmentByOffset_segment:
  assumes v: "ObjectLocation_Verify opts = None" and p: "0 \<le> plainOffset" and f: "failure db = None"
    and l: "latest_committed_stream db opts = Some sid"
    and e: "\<exists>seg\<in>set (segments db). StreamID seg = sid \<and>
              PlainOffset seg \<le> plainOffset \<and> plainOffset < PlainSize seg + PlainOffset seg"
  shows "\<exists>seg\<in>set (segments db). (StreamID seg = sid \<and>
              PlainOffset seg \<le> plainOffset \<and> plainOffset < PlainSize seg + PlainOffset seg) \<and>
              (\<forall>seg'\<in>set (segments db). StreamID seg' = sid \<and>
                  PlainOffset seg' \<le> plainOffset \<and> plainOffset < PlainSize seg' + PlainOffset seg'
                  \<longrightarrow> PlainOffset seg \<le> PlainOffset seg') \<and>
              GetSegmentByOffset db opts plainOffset = Inr seg"
proof -
  let ?Q = "\<lambda>seg. StreamID seg = sid \<and>
              PlainOffset seg \<le> plainOffset \<and> plainOffset < PlainSize seg + PlainOffset seg"
  from least_row_some [OF e, of PlainOffset]
  obtain seg where seg: "seg \<in> set (segments db)" "?Q seg"
    "\<forall>seg'\<in>set (segments db). ?Q seg' \<longrightarrow> PlainOffset seg \<le> PlainOffset seg'"
    "limit 1 (order_by_asc PlainOffset (filter ?Q (segments db))) = [seg]" by blast
  have "GetSegmentByOffset db opts plainOffset = Inr seg"
    using v p f l seg(4) by (simp add: GetSegmentByOffset_def QueryRow_ok)
  then show ?thesis using seg(1-3) by blast
qed

lemma GetSegmentByOffset_negative:
  assumes "plainOffset < 0"
  shows "\<exists>msg. \<forall>db. GetSegmentByOffset db opts plainOffset = Inl (ErrInvalidRequest msg)"
proof (cases "ObjectLocation_Verify opts")
  case None
  then have "\<forall>db. GetSegmentByOffset db opts plainOffset = Inl (ErrInvalidRequest ''Invalid PlainOffset'')"
    using assms by (simp add: GetSegmentByOffset_def)
  then show ?thesis ..
next
  case (Some err)
  then obtain msg where "err = ErrInvalidRequest msg"
    by (auto simp: ObjectLocation_Verify_def split: if_splits)
  then have "\<forall>db. GetSegmentByOffset db opts plainOffset = Inl (ErrInvalidRequest msg)"
    using Some by (simp add: GetSegmentByOffset_def)
  then show ?thesis ..
qed

lemma GetSegmentByOffset_invalid:
  assumes "IsZero (ProjectID opts) \<or> BucketName opts = [] \<or> ObjectKey opts = []"
  shows "\<exists>msg. \<forall>db. GetSegmentByOffset db opts plainOffset = Inl (ErrInvalidRequest msg)"
proof -
  from ObjectLocation_Verify_Some [OF assms]
  obtain msg where "ObjectLocation_Verify opts = Some (ErrInvalidRequest msg)" ..
  then have "\<forall>db. GetSegmentByOffset db opts plainOffset = Inl (ErrInvalidRequest msg)"
    by (simp add: GetSegmentByOffset_def)
  then show ?thesis ..
qed

lemma GetSegmentByOffset_valid:
  assumes a: "\<not> IsZero (ProjectID opts)" "BucketName opts \<noteq> []" "ObjectKey opts \<noteq> []"
    and p: "0 \<le> plainOffset" and f: "failure db = None"
  shows "if \<exists>obj\<in>set (objects db). ProjectID obj = ProjectID opts \<and> BucketName obj = BucketName opts \<and>
               ObjectKey obj = ObjectKey opts \<and> Status obj = Committed
         then \<exists>obj\<in>set (objects db).
               (ProjectID obj = ProjectID opts \<and> BucketName obj = BucketName opts \<and>
                ObjectKey obj = ObjectKey opts \<and> Status obj = Committed) \<and>
               (\<forall>obj'\<in>set (objects db). ProjectID obj' = ProjectID opts \<and>
                   BucketName obj' = BucketName opts \<and> ObjectKey obj' = ObjectKey opts \<and>
                   Status obj' = Committed \<longrightarrow> Version obj' \<le> Version obj) \<and>
               (if \<exists>seg\<in>set (segments db). StreamID seg = ObjectStream.StreamID obj \<and>
                      PlainOffset seg \<le> plainOffset \<and> plainOffset < PlainSize seg + PlainOffset seg
                then \<exists>seg\<in>set (segments db).
                      (StreamID seg = ObjectStream.StreamID obj \<and>
                       PlainOffset seg \<le> plainOffset \<and> plainOffset < PlainSize seg + PlainOffset seg) \<and>
                      (\<forall>seg'\<in>set (segments db). StreamID seg' = ObjectStream.StreamID obj \<and>
                          PlainOffset seg' \<le> plainOffset \<and>
                          plainOffset < PlainSize seg' + PlainOffset seg'
                          \<longrightarrow> PlainOffset seg \<le> PlainOffset seg') \<and>
                      GetSegmentByOffset db opts plainOffset = Inr seg
                else \<exists>msg. GetSegmentByOffset db opts plainOffset = Inl (ErrObjectNotFound msg))
         else \<exists>msg. GetSegmentByOffset db opts plainOffset = Inl (ErrObjectNotFound msg)"
proof -
  let ?P = "\<lambda>r. ProjectID r = ProjectID opts \<and> BucketName r = BucketName opts \<and>
               ObjectKey r = ObjectKey opts \<and> Status r = Committed"
  have v: "ObjectLocation_Verify opts = None" using a by (rule ObjectLocation_Verify_None)
  show ?thesis
  proof (cases "\<exists>obj\<in>set (objects db). ?P obj")
    case False
    then have "latest_committed_stream db opts = None"
      using latest_committed_stream_cases [of db opts] by (simp only: if_False)
    from GetSegmentByOffset_no_stream [OF v p f this]
    have "\<exists>msg. GetSegmentByOffset db opts plainOffset = Inl (ErrObjectNotFound msg)" ..
    then show ?thesis by (subst if_not_P [OF False])
  next
    case True
    then obtain obj where obj: "obj \<in> set (objects db)" "?P obj"
      "\<forall>obj'\<in>set (objects db). ?P obj' \<longrightarrow> Version obj' \<le> Version obj"
      and l: "latest_committed_stream db opts = Some (ObjectStream.StreamID obj)"
      using latest_committed_stream_cases [of db opts] by (simp only: if_True) blast
    let ?C = "\<lambda>seg. StreamID seg = ObjectStream.StreamID obj \<and>
                PlainOffset seg \<le> plainOffset \<and> plainOffset < PlainSize seg + PlainOffset seg"
    have inner: "if \<exists>seg\<in>set (segments db). ?C seg
                 then \<exists>seg\<in>set (segments db). ?C seg \<and>
                      (\<forall>seg'\<in>set (segments db). ?C seg' \<longrightarrow> PlainOffset seg \<le> PlainOffset seg') \<and>
                      GetSegmentByOffset db opts plainOffset = Inr seg
                 else \<exists>msg. GetSegmentByOffset db opts plainOffset = Inl (ErrObjectNotFound msg)"
    proof (cases "\<exists>seg\<in>set (segments db). ?C seg")
      case False
      from GetSegmentByOffset_no_segment [OF v p f l False]
      have "\<exists>msg. GetSegmentByOffset db opts plainOffset = Inl (ErrObjectNotFound msg)" ..
      then show ?thesis by (subst if_not_P [OF False])
    next
      case True
      from GetSegmentByOffset_segment [OF v p f l True]
      show ?thesis by (subst if_P [OF True])
    qed
    have "?P obj \<and> (\<forall>obj'\<in>set (objects db). ?P obj' \<longrightarrow> Version obj' \<le> Version obj) \<and>
          (if \<exists>seg\<in>set (segments db). ?C seg
                 then \<exists>seg\<in>set (segments db). ?C seg \<and>
                      (\<forall>seg'\<in>set (segments db). ?C seg' \<longrightarrow> PlainOffset seg \<le> PlainOffset seg') \<and>
                      GetSegmentByOffset db opts plainOffset = Inr seg
                 else \<exists>msg. GetSegmentByOffset db opts plainOffset = Inl (ErrObjectNotFound msg))"
      by (rule conjI [OF obj(2) conjI [OF obj(3) inner]])
    then show ?thesis by (subst if_P [OF True]) (rule bexI [OF _ obj(1)])
  qed
qed

text \<open>
  Claim C7, amended. \<^verbatim>\<open>GetSegmentByOffset\<close> fails with InvalidRequest, whatever the
  database holds or does, for every negative offset and for every location with a missing
  field. For a valid location, an offset that is not negative and a query that the
  backend answers: when a Committed object exists at the location, there is one of
  greatest version such that the call returns a segment of its stream whose interval
  from \<^verbatim>\<open>PlainOffset\<close> up to, not including, \<^verbatim>\<open>PlainOffset + PlainSize\<close> contains the
  offset, with the smallest \<^verbatim>\<open>PlainOffset\<close> among all such segments, and fails with
  ObjectNotFound when that stream has no such segment; when no Committed object exists at
  the location it fails with ObjectNotFound.
\<close>

theorem GetSegmentByOffset_spec:
  "(plainOffset < 0 \<or> IsZero (ProjectID opts) \<or> BucketName opts = [] \<or> ObjectKey opts = [] \<longrightarrow>
      (\<exists>msg. \<forall>db. GetSegmentByOffset db opts plainOffset = Inl (ErrInvalidRequest msg)))
   \<and> (0 \<le> plainOffset \<and> \<not> IsZero (ProjectID opts) \<and> BucketName opts \<noteq> [] \<and>
        ObjectKey opts \<noteq> [] \<and> failure db = None \<longrightarrow>
        (if \<exists>obj\<in>set (objects db). ProjectID obj = ProjectID opts \<and> BucketName obj = BucketName opts \<and>
               ObjectKey obj = ObjectKey opts \<and> Status obj = Committed
         then \<exists>obj\<in>set (objects db).
               (ProjectID obj = ProjectID opts \<and> BucketName obj = BucketName opts \<and>
                ObjectKey obj = ObjectKey opts \<and> Status obj = Committed) \<and>
               (\<forall>obj'\<in>set (objects db). ProjectID obj' = ProjectID opts \<and>
                   BucketName obj' = BucketName opts \<and> ObjectKey obj' = ObjectKey opts \<and>
                   Status obj' = Committed \<longrightarrow> Version obj' \<le> Version obj) \<and>
               (if \<exists>seg\<in>set (segments db). StreamID seg = ObjectStream.StreamID obj \<and>
                      PlainOffset seg \<le> plainOffset \<and> plainOffset < PlainSize seg + PlainOffset seg
                then \<exists>seg\<in>set (segments db).
                      (StreamID seg = ObjectStream.StreamID obj \<and>
                       PlainOffset seg \<le> plainOffset \<and> plainOffset < PlainSize seg + PlainOffset seg) \<and>
                      (\<forall>seg'\<in>set (segments db). StreamID seg' = ObjectStream.StreamID obj \<and>
                          PlainOffset seg' \<le> plainOffset \<and>
                          plainOffset < PlainSize seg' + PlainOffset seg'
                          \<longrightarrow> PlainOffset seg \<le> PlainOffset seg') \<and>
                      GetSegmentByOffset db opts plainOffset = Inr seg
                else \<exists>msg. GetSegmentByOffset db opts plainOffset = Inl (ErrObjectNotFound msg))
         else \<exists>msg. GetSegmentByOffset db opts plainOffset = Inl (ErrObjectNotFound msg)))"
proof (rule conjI)
  show "plainOffset < 0 \<or> IsZero (ProjectID opts) \<or> BucketName opts = [] \<or> ObjectKey opts = [] \<longrightarrow>
      (\<exists>msg. \<forall>db. GetSegmentByOffset db opts plainOffset = Inl (ErrInvalidRequest msg))"
    using GetSegmentByOffset_negative [of plainOffset opts] GetSegmentByOffset_invalid [of opts plainOffset]
    by blast
next
  show "0 \<le> plainOffset \<and> \<not> IsZero (ProjectID opts) \<and> BucketName opts \<noteq> [] \<and>
        ObjectKey opts \<noteq> [] \<and> failure db = None \<longrightarrow>
        (if \<exists>obj\<in>set (objects db). ProjectID obj = ProjectID opts \<and> BucketName obj = BucketName opts \<and>
               ObjectKey obj = ObjectKey opts \<and> Status obj = Committed
         then \<exists>obj\<in>set (objects db).
               (ProjectID obj = ProjectID opts \<and> BucketName obj = BucketName opts \<and>
                ObjectKey obj = ObjectKey opts \<and> Status obj = Committed) \<and>
               (\<forall>obj'\<in>set (objects db). ProjectID obj' = ProjectID opts \<and>
                   BucketName obj' = BucketName opts \<and> ObjectKey obj' = ObjectKey opts \<and>
                   Status obj' = Committed \<longrightarrow> Version obj' \<le> Version obj) \<and>
               (if \<exists>seg\<in>set (segments db). StreamID seg = ObjectStream.StreamID obj \<and>
                      PlainOffset seg \<le> plainOffset \<and> plainOffset < PlainSize seg + PlainOffset seg
                then \<exists>seg\<in>set (segments db).
                      (StreamID seg = ObjectStream.StreamID obj \<and>
                       PlainOffset seg \<le> plainOffset \<and> plainOffset < PlainSize seg + PlainOffset seg) \<and>
                      (\<forall>seg'\<in>set (segments db). StreamID seg' = ObjectStream.StreamID obj \<and>
                          PlainOffset seg' \<le> plainOffset \<and>
                          plainOffset < PlainSize seg' + PlainOffset seg'
                          \<longrightarrow> PlainOffset seg \<le> PlainOffset seg') \<and>
                      GetSegmentByOffset db opts plainOffset = Inr seg
                else \<exists>msg. GetSegmentByOffset db opts plainOffset = Inl (ErrObjectNotFound msg))
         else \<exists>msg. GetSegmentByOffset db opts plainOffset = Inl (ErrObjectNotFound msg))"
    by (rule impI, rule GetSegmentByOffset_valid) simp_all
qed

text \<open>Offset 15 lies in the second segment of the latest Committed stream; offset 20 is
  past its end; a Pending object alone has no stream to look in.\<close>

theorem GetSegmentByOffset_spec_witness:
  "(\<exists>msg. \<forall>db. GetSegmentByOffset db example_location (- 1) = Inl (ErrInvalidRequest msg))
   \<and> (\<exists>msg. \<forall>db. GetSegmentByOffset db unnamed_project_location 0 = Inl (ErrInvalidRequest msg))
   \<and> GetSegmentByOffset segments_db example_location 15 = Inr (example_segment 8 1 10 10)
   \<and> (\<exists>msg. GetSegmentByOffset segments_db example_location 20 = Inl (ErrObjectNotFound msg))
   \<and> (\<exists>msg. GetSegmentByOffset pending_only_db example_location 0 = Inl (ErrObjectNotFound msg))"
  using GetSegmentByOffset_spec [of "- 1" example_location segments_db]
        GetSegmentByOffset_spec [of 0 unnamed_project_location segments_db]
        GetSegmentByOffset_spec [of 15 example_location segments_db]
        GetSegmentByOffset_spec [of 20 example_location segments_db]
        GetSegmentByOffset_spec [of 0 example_location pending_only_db]
  by (simp add: example_location_def segments_db_def example_object_def example_segment_def
        IsZero_def pending_only_db_def unnamed_project_location_def)

text \<open>
  Claim C7 as stated: offset 0 is not negative, the empty database has no object and no
  covering segment, and at the location without a project id the call fails with
  InvalidRequest, not with ObjectNotFound.
\<close>

theorem GetSegmentByOffset_counterexample:
  "objects empty_db = [] \<and> segments empty_db = [] \<and>
   GetSegmentByOffset empty_db unnamed_project_location 0
     = Inl (ErrInvalidRequest ''ProjectID missing'') \<and>
   \<not> is_ObjectNotFound (ErrInvalidRequest ''ProjectID missing'')"
  by (simp add: GetSegmentByOffset_def ObjectLocation_Verify_def IsZero_def
        unnamed_project_location_def empty_db_def)

subsection \<open>BucketEmpty\<close>

lemma BucketEmpty_invalid:
  assumes "IsZero projectID \<or> bucketName = []"
  shows "\<exists>msg. \<forall>db. BucketEmpty db projectID bucketName = Inl (ErrInvalidRequest msg)"
proof (cases "IsZero projectID")
  case True
  then have "\<forall>db. BucketEmpty db projectID bucketName = Inl (ErrInvalidRequest ''ProjectID missing'')"
    by (simp add: BucketEmpty_def)
  then show ?thesis ..
next
  case False
  then have "\<forall>db. BucketEmpty db projectID bucketName = Inl (ErrInvalidRequest ''BucketName missing'')"
    using assms by (simp add: BucketEmpty_def)
  then show ?thesis ..
qed

lemma BucketEmpty_valid:
  assumes a: "\<not> IsZero projectID" "bucketName \<noteq> []" and f: "failure db = None"
  shows "BucketEmpty db projectID bucketName =
           Inr (\<not> (\<exists>r\<in>set (objects db). ProjectID r = projectID \<and> BucketName r = bucketName))"
proof (cases "filter (\<lambda>r. ProjectID r = projectID \<and> BucketName r = bucketName) (objects db)")
  case Nil
  then have "\<not> (\<exists>r\<in>set (objects db). ProjectID r = projectID \<and> BucketName r = bucketName)"
    by (simp add: filter_empty_conv)
  then show ?thesis using a f Nil by (simp add: BucketEmpty_def QueryRow_ok limit_def)
next
  case (Cons r rest)
  then have "\<exists>r\<in>set (objects db). ProjectID r = projectID \<and> BucketName r = bucketName"
    using filter_hd_row [OF Cons] by blast
  then show ?thesis using a f Cons by (simp add: BucketEmpty_def QueryRow_ok limit_def)
qed

text \<open>
  Claim C8. \<^verbatim>\<open>BucketEmpty\<close> fails with InvalidRequest, whatever the database holds or
  does, when the project id is zero or the bucket name is empty. Otherwise, for a query
  that the backend answers, it returns false when the objects table has a row for the
  project and bucket, of whatever status, and true when it has none. The objects table is
  all it reads: a project and bucket without rows is reported empty whether or not such a
  bucket exists.
\<close>

theorem BucketEmpty_spec:
  "(IsZero projectID \<or> bucketName = [] \<longrightarrow>
      (\<exists>msg. \<forall>db. BucketEmpty db projectID bucketName = Inl (ErrInvalidRequest msg)))
   \<and> (\<not> IsZero projectID \<and> bucketName \<noteq> [] \<and> failure db = None \<longrightarrow>
        (if \<exists>r\<in>set (objects db). ProjectID r = projectID \<and> BucketName r = bucketName
         then BucketEmpty db projectID bucketName = Inr False
         else BucketEmpty db projectID bucketName = Inr True))"
proof (rule conjI)
  show "IsZero projectID \<or> bucketName = [] \<longrightarrow>
      (\<exists>msg. \<forall>db. BucketEmpty db projectID bucketName = Inl (ErrInvalidRequest msg))"
    by (rule impI) (rule BucketEmpty_invalid)
next
  show "\<not> IsZero projectID \<and> bucketName \<noteq> [] \<and> failure db = None \<longrightarrow>
        (if \<exists>r\<in>set (objects db). ProjectID r = projectID \<and> BucketName r = bucketName
         then BucketEmpty db projectID bucketName = Inr False
         else BucketEmpty db projectID bucketName = Inr True)"
    using BucketEmpty_valid [of projectID bucketName db] by simp
qed

text \<open>A bucket with a Pending object only is not empty; a bucket that no row mentions,
  and any bucket of the empty database, is.\<close>

theorem BucketEmpty_spec_witness:
  "(\<exists>msg. \<forall>db. BucketEmpty db 0 ''bucket'' = Inl (ErrInvalidRequest msg))
   \<and> (\<exists>msg. \<forall>db. BucketEmpty db 1 [] = Inl (ErrInvalidRequest msg))
   \<and> BucketEmpty pending_only_db 1 ''bucket'' = Inr False
   \<and> BucketEmpty example_db 1 ''bucket'' = Inr False
   \<and> BucketEmpty example_db 1 ''other'' = Inr True
   \<and> BucketEmpty empty_db 1 ''bucket'' = Inr True"
  using BucketEmpty_spec [of 0 "''bucket''" empty_db]
        BucketEmpty_spec [of 1 "[]" empty_db]
        BucketEmpty_spec [of 1 "''bucket''" pending_only_db]
        BucketEmpty_spec [of 1 "''bucket''" example_db]
        BucketEmpty_spec [of 1 "''other''" example_db]
        BucketEmpty_spec [of 1 "''bucket''" empty_db]
  by (simp add: example_db_def example_object_def IsZero_def pending_only_db_def empty_db_def)

section \<open>Properties of the precommit constraint engine\<close>

lemma PrecommitConstraint_no_objects:
  assumes "\<forall>r\<in>set (tx_objects tx). \<not> at_location loc r"
  shows "PrecommitConstraint now \<lparr> Location = loc, Versioned = versioned,
            DisallowDelete = disallowDelete, PrecommitDeleteMode = mode \<rparr> tx
          = ((zero_PrecommitConstraintResult, None), tx)"
proof -
  have "filter (at_location loc) (tx_objects tx) = []"
    using assms by (simp add: filter_empty_conv)
  then show ?thesis by (simp add: PrecommitConstraint_def)
qed

text \<open>
  Claim C1. At a location where no object exists, Pending or Committed,
  \<^verbatim>\<open>PrecommitConstraint\<close> returns the zero-value result and no error for every
  combination of the versioned and disallow-delete flags (and every delete mode), and so
  does \<^verbatim>\<open>PrecommitDeleteUnversionedWithNonPending\<close>; the tables are left as they were.
\<close>

theorem PrecommitConstraint_empty:
  "(\<forall>r\<in>set (tx_objects tx). \<not> at_location loc r) \<longrightarrow>
     (\<forall>versioned disallowDelete mode.
        PrecommitConstraint now \<lparr> Location = loc, Versioned = versioned,
            DisallowDelete = disallowDelete, PrecommitDeleteMode = mode \<rparr> tx
          = ((zero_PrecommitConstraintResult, None), tx))
     \<and> PrecommitDeleteUnversionedWithNonPending now loc tx
          = ((zero_PrecommitConstraintResult, None), tx)"
proof
  assume a: "\<forall>r\<in>set (tx_objects tx). \<not> at_location loc r"
  then have "filter (at_location loc) (tx_objects tx) = []" by (simp add: filter_empty_conv)
  then have "PrecommitDeleteUnversionedWithNonPending now loc tx
          = ((zero_PrecommitConstraintResult, None), tx)"
    by (simp add: PrecommitDeleteUnversionedWithNonPending_def)
  then show "(\<forall>versioned disallowDelete mode.
        PrecommitConstraint now \<lparr> Location = loc, Versioned = versioned,
            DisallowDelete = disallowDelete, PrecommitDeleteMode = mode \<rparr> tx
          = ((zero_PrecommitConstraintResult, None), tx))
     \<and> PrecommitDeleteUnversionedWithNonPending now loc tx
          = ((zero_PrecommitConstraintResult, None), tx)"
    using PrecommitConstraint_no_objects [OF a] by simp
qed

theorem PrecommitConstraint_empty_witness:
  "(\<forall>versioned disallowDelete mode.
        PrecommitConstraint 100 \<lparr> Location = other_location, Versioned = versioned,
            DisallowDelete = disallowDelete, PrecommitDeleteMode = mode \<rparr> locked_tx
          = ((zero_PrecommitConstraintResult, None), locked_tx))
   \<and> PrecommitDeleteUnversionedWithNonPending 100 other_location locked_tx
          = ((zero_PrecommitConstraintResult, None), locked_tx)"
  using PrecommitConstraint_empty [of locked_tx other_location 100]
  by (simp add: at_location_def other_location_def locked_tx_def example_row_def)

text \<open>
  Claim C2. An unversioned \<^verbatim>\<open>PrecommitConstraint\<close> call, in the Object-Lock-aware mode
  as in any other, that finds at its location a Committed object under Compliance
  retention with a retain-until instant in the future fails with the Object-Lock error,
  returns the zero-value result and leaves the tables, and with them the object and its
  segments, as they were.
\<close>

theorem PrecommitConstraint_active_retention:
  assumes "Versioned opts = False"
    and "obj \<in> set (tx_objects tx)" and "at_location (Location opts) obj"
    and "Status obj = Committed"
    and "Mode (Retention obj) = Compliance" and "now < RetainUntil (Retention obj)"
  shows "\<exists>msg. PrecommitConstraint now opts tx
           = ((zero_PrecommitConstraintResult, Some (ErrObjectLock msg)), tx)"
proof -
  have ne: "filter (at_location (Location opts)) (tx_objects tx) \<noteq> []"
    using assms(2,3) by (auto simp: filter_empty_conv)
  have "list_ex (\<lambda>c. delete_protected (Retention c) now)
          (filter (\<lambda>r. at_location (Location opts) r \<and> Status r = Committed) (tx_objects tx))"
    using assms(2-6) by (auto simp: list_ex_iff delete_protected_def)
  then have "precommit_delete_unversioned now (Location opts) (DisallowDelete opts) tx
      = ((zero_PrecommitConstraintResult,
          Some (ErrObjectLock ''object is protected by Object Lock settings'')), tx)"
    by (simp add: precommit_delete_unversioned_def)
  then show ?thesis using ne assms(1) by (simp add: PrecommitConstraint_def)
qed

theorem PrecommitConstraint_active_retention_witness:
  "\<exists>msg. PrecommitConstraint 100 object_lock_precommit locked_tx
           = ((zero_PrecommitConstraintResult, Some (ErrObjectLock msg)), locked_tx)"
  using PrecommitConstraint_active_retention
          [of object_lock_precommit
              "example_row 1 7 Committed 3 \<lparr> Mode = Compliance, RetainUntil = 3700 \<rparr>"
              locked_tx 100]
  by (simp add: object_lock_precommit_def locked_tx_def example_row_def example_location_def
        at_location_def)



end
